theory Spec2Isabelle
  imports Complex_Main
begin

unbundle bit_operations_syntax

section \<open>Silicon Labs C2 master over an FTDI device (pyftdi/c2.py)\<close>

text \<open>
  A shallow embedding of \<^verbatim>\<open>src/pyftdi/c2.py\<close>. Python integers are \<^typ>\<open>int\<close>, a
  \<^verbatim>\<open>bytearray\<close> is a list of integers that its constructor has checked to be bytes, and
  every method of \<^verbatim>\<open>C2Controller\<close> is a function from the controller's state to an outcome
  and the state the call leaves behind. A Python exception does not roll the object back, so
  the state is returned on the error branch too.
\<close>

subsection \<open>Exceptions and byte arrays\<close>

datatype error =
    C2Error string   \<comment> \<open>\<^verbatim>\<open>class C2Error(Exception)\<close>, with its message\<close>
  | TypeError
  | ValueError       \<comment> \<open>\<^verbatim>\<open>bytearray\<close> of an integer outside \<^verbatim>\<open>range(256)\<close>\<close>
  | IndexError       \<comment> \<open>\<^verbatim>\<open>data[0]\<close> on an empty reply\<close>
  | FtdiError        \<comment> \<open>any failure raised by the transport itself\<close>

type_synonym bytes = "int list"

text \<open>\<^verbatim>\<open>bytearray((a, b, ...))\<close>: every item must be in \<^verbatim>\<open>range(256)\<close>.\<close>

definition bytearray :: "int list \<Rightarrow> error + bytes" where
  "bytearray xs = (if list_all (\<lambda>x. 0 \<le> x \<and> x < 256) xs then Inr xs else Inl ValueError)"

subsection \<open>The transport: \<^verbatim>\<open>pyftdi.ftdi.Ftdi\<close>\<close>

text \<open>
  The class \<^verbatim>\<open>Ftdi\<close> is imported by c2.py and is not part of the source under study. Its
  command codes are taken as a parameter: one record with the six class constants that c2.py
  reads.
\<close>

record Ftdi_consts =
  SET_BITS_LOW :: int
  CLK_BITS_NO_DATA :: int
  WRITE_BITS_PVE_LSB :: int
  WRITE_BYTES_PVE_LSB :: int
  READ_BYTES_PVE_LSB :: int
  CLK_WAIT_ON_HIGH :: int

text \<open>
  What the theorems ask of the parameter: the six codes are bytes, so that \<^verbatim>\<open>bytearray\<close>
  accepts them, and, where a command stream is read back, they are pairwise different.
\<close>

definition Ftdi_consts_bytes :: "Ftdi_consts \<Rightarrow> bool" where
  "Ftdi_consts_bytes K =
     list_all (\<lambda>x. 0 \<le> x \<and> x < 256)
       [SET_BITS_LOW K, CLK_BITS_NO_DATA K, WRITE_BITS_PVE_LSB K,
        WRITE_BYTES_PVE_LSB K, READ_BYTES_PVE_LSB K, CLK_WAIT_ON_HIGH K]"

definition Ftdi_consts_ok :: "Ftdi_consts \<Rightarrow> bool" where
  "Ftdi_consts_ok K =
     (Ftdi_consts_bytes K \<and>
      distinct
        [SET_BITS_LOW K, CLK_BITS_NO_DATA K, WRITE_BITS_PVE_LSB K,
         WRITE_BYTES_PVE_LSB K, READ_BYTES_PVE_LSB K, CLK_WAIT_ON_HIGH K])"

text \<open>
  One instance of the parameter, used to run the model on concrete inputs: the MPSSE command
  codes of FTDI's application note AN 108.
\<close>

definition mpsse_codes :: Ftdi_consts where
  "mpsse_codes =
     \<lparr>SET_BITS_LOW = 0x80, CLK_BITS_NO_DATA = 0x8E, WRITE_BITS_PVE_LSB = 0x1A,
      WRITE_BYTES_PVE_LSB = 0x18, READ_BYTES_PVE_LSB = 0x28, CLK_WAIT_ON_HIGH = 0x94\<rparr>"

text \<open>The calls the transport has accepted, oldest first, with their arguments.\<close>

datatype ftdi_call =
    OpenMpsseFromUrl string int real   \<comment> \<open>url, direction, frequency\<close>
  | WriteData bytes
  | Enable3PhaseClock bool
  | ReadDataBytes int int              \<comment> \<open>size, attempt\<close>
  | PurgeBuffers
  | Close bool                         \<comment> \<open>freeze\<close>

text \<open>
  Modelled from the spec: the class \<^verbatim>\<open>Ftdi\<close> (the transport of spec section 6, with the
  handle of section 3 and the errors of section 7) is missing from the source. The model is
  a recording stub: \<open>is_connected\<close> is the connectivity query, \<open>calls\<close> the calls accepted so
  far, \<open>replies\<close> what the device will answer to the coming reads, and \<open>usb_fault\<close> a
  transport that fails every transfer. A call on a handle that is not connected fails, an
  accepted call is appended to \<open>calls\<close>, and \<open>close\<close> invalidates the handle.
\<close>

record Ftdi =
  is_connected :: bool
  usb_fault :: bool
  calls :: "ftdi_call list"
  replies :: "bytes list"

definition Ftdi_new :: Ftdi where
  "Ftdi_new = \<lparr>is_connected = False, usb_fault = False, calls = [], replies = []\<rparr>"

text \<open>
  Modelled from the spec: the truth value of the handle in \<^verbatim>\<open>if not self._ftdi\<close>. The handle
  is an opaque object (spec section 3) that c2.py creates in \<^verbatim>\<open>__init__\<close> and never
  rebinds; connectivity is a separate query (section 6). A Python object is true unless its
  class defines \<^verbatim>\<open>__bool__\<close> or \<^verbatim>\<open>__len__\<close>.
\<close>

definition Ftdi_bool :: "Ftdi \<Rightarrow> bool" where
  "Ftdi_bool f = True"

definition Ftdi_open_mpsse_from_url ::
    "Ftdi \<Rightarrow> string \<Rightarrow> int \<Rightarrow> real \<Rightarrow> (error + unit) \<times> Ftdi" where
  "Ftdi_open_mpsse_from_url f url direction freq =
     (if usb_fault f then (Inl FtdiError, f)
      else (Inr (), f\<lparr>is_connected := True,
                       calls := calls f @ [OpenMpsseFromUrl url direction freq]\<rparr>))"

definition Ftdi_write_data :: "Ftdi \<Rightarrow> bytes \<Rightarrow> (error + unit) \<times> Ftdi" where
  "Ftdi_write_data f data =
     (if \<not> is_connected f \<or> usb_fault f then (Inl FtdiError, f)
      else (Inr (), f\<lparr>calls := calls f @ [WriteData data]\<rparr>))"

definition Ftdi_enable_3phase_clock :: "Ftdi \<Rightarrow> bool \<Rightarrow> (error + unit) \<times> Ftdi" where
  "Ftdi_enable_3phase_clock f enable =
     (if \<not> is_connected f \<or> usb_fault f then (Inl FtdiError, f)
      else (Inr (), f\<lparr>calls := calls f @ [Enable3PhaseClock enable]\<rparr>))"

text \<open>What the device answers to the next read: nothing when no reply is left.\<close>

definition next_reply :: "Ftdi \<Rightarrow> bytes" where
  "next_reply f = (case replies f of [] \<Rightarrow> [] | r # _ \<Rightarrow> r)"

definition Ftdi_read_data_bytes :: "Ftdi \<Rightarrow> int \<Rightarrow> int \<Rightarrow> (error + bytes) \<times> Ftdi" where
  "Ftdi_read_data_bytes f sz attempt =
     (if \<not> is_connected f \<or> usb_fault f then (Inl FtdiError, f)
      else (Inr (take (nat sz) (next_reply f)),
            f\<lparr>calls := calls f @ [ReadDataBytes sz attempt],
              replies := drop 1 (replies f)\<rparr>))"

definition Ftdi_purge_buffers :: "Ftdi \<Rightarrow> (error + unit) \<times> Ftdi" where
  "Ftdi_purge_buffers f =
     (if \<not> is_connected f \<or> usb_fault f then (Inl FtdiError, f)
      else (Inr (), f\<lparr>calls := calls f @ [PurgeBuffers]\<rparr>))"

definition Ftdi_close :: "Ftdi \<Rightarrow> bool \<Rightarrow> Ftdi" where
  "Ftdi_close f freeze = f\<lparr>is_connected := False, calls := calls f @ [Close freeze]\<rparr>"

subsection \<open>\<^verbatim>\<open>class C2Controller\<close>\<close>

definition CK_BIT :: int where "CK_BIT = 0x01"
definition D_O_BIT :: int where "D_O_BIT = 0x02"
definition D_I_BIT :: int where "D_I_BIT = 0x04"
definition D_FB_BIT :: int where "D_FB_BIT = 0x20"
definition FTDI_PIPE_LEN :: nat where "FTDI_PIPE_LEN = 512"

definition INS_READ_DATA :: int where "INS_READ_DATA = 0"
definition INS_WRITE_DATA :: int where "INS_WRITE_DATA = 1"
definition INS_READ_ADDR :: int where "INS_READ_ADDR = 2"
definition INS_WRITE_ADDR :: int where "INS_WRITE_ADDR = 3"

record C2Controller =
  ftdi :: Ftdi
  frequency :: real
  write_buff :: bytes

text \<open>\<^verbatim>\<open>__init__(self, frequency=20.0E6)\<close>\<close>

definition init :: "real \<Rightarrow> C2Controller" where
  "init freq = \<lparr>ftdi = Ftdi_new, frequency = freq, write_buff = []\<rparr>"

definition configure ::
    "Ftdi_consts \<Rightarrow> C2Controller \<Rightarrow> string \<Rightarrow> (error + unit) \<times> C2Controller" where
  "configure K s url =
     (case Ftdi_open_mpsse_from_url (ftdi s) url 0 (frequency s) of
        (Inl e, f) \<Rightarrow> (Inl e, s\<lparr>ftdi := f\<rparr>)
      | (Inr _, f) \<Rightarrow>
          (case bytearray [SET_BITS_LOW K, CK_BIT OR D_O_BIT, 0] of
             Inl e \<Rightarrow> (Inl e, s\<lparr>ftdi := f\<rparr>)
           | Inr cmd \<Rightarrow>
               (case Ftdi_write_data f cmd of
                  (Inl e, f') \<Rightarrow> (Inl e, s\<lparr>ftdi := f'\<rparr>)
                | (Inr _, f') \<Rightarrow>
                    (case Ftdi_enable_3phase_clock f' True of
                       (r, f'') \<Rightarrow> (r, s\<lparr>ftdi := f''\<rparr>)))))"

definition close :: "C2Controller \<Rightarrow> bool \<Rightarrow> C2Controller" where
  "close s freeze =
     (if is_connected (ftdi s) then s\<lparr>ftdi := Ftdi_close (ftdi s) freeze\<rparr> else s)"

definition purge :: "C2Controller \<Rightarrow> (error + unit) \<times> C2Controller" where
  "purge s = (case Ftdi_purge_buffers (ftdi s) of (r, f) \<Rightarrow> (r, s\<lparr>ftdi := f\<rparr>))"

definition sync :: "C2Controller \<Rightarrow> (error + unit) \<times> C2Controller" where
  "sync s =
     (if \<not> is_connected (ftdi s) then (Inl (C2Error ''FTDI controller terminated''), s)
      else if write_buff s \<noteq> [] then
        (case Ftdi_write_data (ftdi s) (write_buff s) of
           (Inl e, f) \<Rightarrow> (Inl e, s\<lparr>ftdi := f\<rparr>)
         | (Inr _, f) \<Rightarrow> (Inr (), s\<lparr>ftdi := f, write_buff := []\<rparr>))
      else (Inr (), s))"

text \<open>
  \<^verbatim>\<open>_stack_cmd\<close>. Its argument is a byte array by its type here, so the \<^verbatim>\<open>isinstance\<close>
  test, which raises \<^verbatim>\<open>TypeError\<close>, never fires.
\<close>

definition stack_cmd :: "C2Controller \<Rightarrow> bytes \<Rightarrow> (error + unit) \<times> C2Controller" where
  "stack_cmd s cmd =
     (if \<not> Ftdi_bool (ftdi s) then (Inl (C2Error ''FTDI controller terminated''), s)
      else if length (write_buff s) + length cmd + 1 \<ge> FTDI_PIPE_LEN then
        (case sync s of
           (Inl e, s') \<Rightarrow> (Inl e, s')
         | (Inr _, s') \<Rightarrow> (Inr (), s'\<lparr>write_buff := write_buff s' @ cmd\<rparr>))
      else (Inr (), s\<lparr>write_buff := write_buff s @ cmd\<rparr>))"

definition claim :: "Ftdi_consts \<Rightarrow> C2Controller \<Rightarrow> (error + unit) \<times> C2Controller" where
  "claim K s =
     (case bytearray [SET_BITS_LOW K, CK_BIT OR D_O_BIT, CK_BIT] of
        Inl e \<Rightarrow> (Inl e, s)
      | Inr cmd \<Rightarrow> (case Ftdi_write_data (ftdi s) cmd of (r, f) \<Rightarrow> (r, s\<lparr>ftdi := f\<rparr>)))"

definition release :: "Ftdi_consts \<Rightarrow> C2Controller \<Rightarrow> (error + unit) \<times> C2Controller" where
  "release K s =
     (case sync s of
        (Inl e, s') \<Rightarrow> (Inl e, s')
      | (Inr _, s') \<Rightarrow>
          (case bytearray [SET_BITS_LOW K, CK_BIT OR D_O_BIT, 0] of
             Inl e \<Rightarrow> (Inl e, s')
           | Inr cmd \<Rightarrow>
               (case Ftdi_write_data (ftdi s') cmd of (r, f) \<Rightarrow> (r, s'\<lparr>ftdi := f\<rparr>))))"

definition reset :: "Ftdi_consts \<Rightarrow> C2Controller \<Rightarrow> (error + unit) \<times> C2Controller" where
  "reset K s =
     (if \<not> is_connected (ftdi s) then (Inl (C2Error ''FTDI controller terminated''), s)
      else
        (case sync s of
           (Inl e, s1) \<Rightarrow> (Inl e, s1)
         | (Inr _, s1) \<Rightarrow>
             (case bytearray [SET_BITS_LOW K, 0 OR D_O_BIT, CK_BIT] of
                Inl e \<Rightarrow> (Inl e, s1)
              | Inr cmd \<Rightarrow>
                  (case Ftdi_write_data (ftdi s1) cmd of
                     (Inl e, f) \<Rightarrow> (Inl e, s1\<lparr>ftdi := f\<rparr>)
                   | (Inr _, f) \<Rightarrow>
                       (case bytearray [SET_BITS_LOW K, CK_BIT OR D_O_BIT, CK_BIT] of
                          Inl e \<Rightarrow> (Inl e, s1\<lparr>ftdi := f\<rparr>)
                        | Inr cmd' \<Rightarrow>
                            (case Ftdi_write_data f cmd' of
                               (r, f') \<Rightarrow> (r, s1\<lparr>ftdi := f'\<rparr>)))))))"

text \<open>The byte array \<^verbatim>\<open>cmd\<close> that each of the four transactions builds.\<close>

definition write_addr_cmd :: "Ftdi_consts \<Rightarrow> int \<Rightarrow> error + bytes" where
  "write_addr_cmd K addr =
     bytearray
       [CLK_BITS_NO_DATA K, 0,
        SET_BITS_LOW K, CK_BIT OR D_O_BIT, CK_BIT OR D_O_BIT,
        WRITE_BITS_PVE_LSB K, 1, INS_WRITE_ADDR,
        WRITE_BYTES_PVE_LSB K, 0, 0, addr,
        SET_BITS_LOW K, CK_BIT OR D_O_BIT, CK_BIT,
        CLK_BITS_NO_DATA K, 0]"

definition read_addr_cmd :: "Ftdi_consts \<Rightarrow> error + bytes" where
  "read_addr_cmd K =
     bytearray
       [CLK_BITS_NO_DATA K, 0,
        SET_BITS_LOW K, CK_BIT OR D_O_BIT, CK_BIT OR D_O_BIT,
        WRITE_BITS_PVE_LSB K, 1, INS_READ_ADDR,
        SET_BITS_LOW K, CK_BIT OR D_O_BIT, CK_BIT,
        READ_BYTES_PVE_LSB K, 0, 0,
        CLK_BITS_NO_DATA K, 0]"

definition write_data_byte_cmd :: "Ftdi_consts \<Rightarrow> int \<Rightarrow> error + bytes" where
  "write_data_byte_cmd K val =
     bytearray
       [CLK_BITS_NO_DATA K, 0,
        SET_BITS_LOW K, CK_BIT OR D_O_BIT, CK_BIT OR D_O_BIT,
        WRITE_BITS_PVE_LSB K, 3, INS_WRITE_DATA,
        WRITE_BYTES_PVE_LSB K, 0, 0, val,
        SET_BITS_LOW K, CK_BIT OR D_O_BIT, CK_BIT,
        CLK_WAIT_ON_HIGH K,
        CLK_BITS_NO_DATA K, 0]"

definition read_data_byte_cmd :: "Ftdi_consts \<Rightarrow> error + bytes" where
  "read_data_byte_cmd K =
     bytearray
       [CLK_BITS_NO_DATA K, 0,
        SET_BITS_LOW K, CK_BIT OR D_O_BIT, CK_BIT OR D_O_BIT,
        WRITE_BITS_PVE_LSB K, 3, INS_READ_DATA,
        SET_BITS_LOW K, CK_BIT OR D_O_BIT, CK_BIT,
        CLK_WAIT_ON_HIGH K,
        READ_BYTES_PVE_LSB K, 0, 0,
        CLK_BITS_NO_DATA K, 0]"

definition write_addr ::
    "Ftdi_consts \<Rightarrow> C2Controller \<Rightarrow> int \<Rightarrow> (error + unit) \<times> C2Controller" where
  "write_addr K s addr =
     (case write_addr_cmd K addr of
        Inl e \<Rightarrow> (Inl e, s)
      | Inr cmd \<Rightarrow> stack_cmd s cmd)"

definition write_data_byte ::
    "Ftdi_consts \<Rightarrow> C2Controller \<Rightarrow> int \<Rightarrow> (error + unit) \<times> C2Controller" where
  "write_data_byte K s val =
     (case write_data_byte_cmd K val of
        Inl e \<Rightarrow> (Inl e, s)
      | Inr cmd \<Rightarrow> stack_cmd s cmd)"

text \<open>
  The tail shared by \<^verbatim>\<open>read_addr\<close> and \<^verbatim>\<open>read_data_byte\<close>, which the source writes out
  twice: \<^verbatim>\<open>self._stack_cmd(cmd); self.sync(); data = self._ftdi.read_data_bytes(1, 4);
  return data[0]\<close>.
\<close>

definition stack_sync_read :: "C2Controller \<Rightarrow> bytes \<Rightarrow> (error + int) \<times> C2Controller" where
  "stack_sync_read s cmd =
     (case stack_cmd s cmd of
        (Inl e, s1) \<Rightarrow> (Inl e, s1)
      | (Inr _, s1) \<Rightarrow>
          (case sync s1 of
             (Inl e, s2) \<Rightarrow> (Inl e, s2)
           | (Inr _, s2) \<Rightarrow>
               (case Ftdi_read_data_bytes (ftdi s2) 1 4 of
                  (Inl e, f) \<Rightarrow> (Inl e, s2\<lparr>ftdi := f\<rparr>)
                | (Inr data, f) \<Rightarrow>
                    (case data of
                       [] \<Rightarrow> (Inl IndexError, s2\<lparr>ftdi := f\<rparr>)
                     | b # _ \<Rightarrow> (Inr b, s2\<lparr>ftdi := f\<rparr>)))))"

definition read_addr :: "Ftdi_consts \<Rightarrow> C2Controller \<Rightarrow> (error + int) \<times> C2Controller" where
  "read_addr K s =
     (case read_addr_cmd K of
        Inl e \<Rightarrow> (Inl e, s)
      | Inr cmd \<Rightarrow> stack_sync_read s cmd)"

definition read_data_byte :: "Ftdi_consts \<Rightarrow> C2Controller \<Rightarrow> (error + int) \<times> C2Controller" where
  "read_data_byte K s =
     (case read_data_byte_cmd K of
        Inl e \<Rightarrow> (Inl e, s)
      | Inr cmd \<Rightarrow> stack_sync_read s cmd)"

subsection \<open>Observing the model\<close>

text \<open>A transport that accepts transfers: connected, and without a fault.\<close>

definition usable :: "Ftdi \<Rightarrow> bool" where
  "usable f = (is_connected f \<and> \<not> usb_fault f)"

text \<open>All the bytes written to the transport, in the order of the writes.\<close>

fun written :: "ftdi_call list \<Rightarrow> bytes" where
  "written [] = []"
| "written (WriteData d # cs) = d @ written cs"
| "written (_ # cs) = written cs"

text \<open>A caller that enqueues a sequence of frames, one \<^verbatim>\<open>_stack_cmd\<close> after the other.\<close>

fun stack_cmds :: "C2Controller \<Rightarrow> bytes list \<Rightarrow> (error + unit) \<times> C2Controller" where
  "stack_cmds s [] = (Inr (), s)"
| "stack_cmds s (c # cs) =
     (case stack_cmd s c of
        (Inl e, s') \<Rightarrow> (Inl e, s')
      | (Inr _, s') \<Rightarrow> stack_cmds s' cs)"

text \<open>
  The Output Batcher in the spec's words (section 4.2), on a buffer and the frames to come:
  the buffers handed to the transport, oldest first, and the buffer left pending. A frame
  that, with one reserved byte, would make the buffer reach the transport limit is preceded
  by a flush.
\<close>

fun batcher_spec :: "bytes \<Rightarrow> bytes list \<Rightarrow> bytes list \<times> bytes" where
  "batcher_spec buf [] = ([], buf)"
| "batcher_spec buf (c # cs) =
     (if length buf + length c + 1 \<ge> 512
      then (buf # fst (batcher_spec c cs), snd (batcher_spec c cs))
      else batcher_spec (buf @ c) cs)"

subsection \<open>Reading a frame back\<close>

text \<open>
  The transport primitives of spec section 2 (clock pulse, set output bits, write bits and
  bytes, read bytes, clock until input high), as one command each. A bit write carries its
  bit-count field and the byte holding the bits; a byte write or read carries a two-byte
  length field, low byte first, that counts from zero.
\<close>

datatype mpsse_cmd =
    ClkBitsNoData int        \<comment> \<open>count field\<close>
  | SetBitsLow int int       \<comment> \<open>the two bytes after the code, in stream order\<close>
  | WriteBitsLSB int int     \<comment> \<open>bit-count field, bits\<close>
  | WriteBytesLSB bytes      \<comment> \<open>payload\<close>
  | ReadBytesLSB int         \<comment> \<open>number of bytes to read\<close>
  | ClkWaitOnHigh

text \<open>
  The structural decoder of a command stream. It follows the spec's frame layout, not the
  source, which only encodes.
\<close>

fun decode_mpsse :: "Ftdi_consts \<Rightarrow> bytes \<Rightarrow> mpsse_cmd list option" where
  "decode_mpsse K [] = Some []"
| "decode_mpsse K (c # rest) =
     (if c = CLK_BITS_NO_DATA K then
        (case rest of
           n # r \<Rightarrow> map_option ((#) (ClkBitsNoData n)) (decode_mpsse K r)
         | _ \<Rightarrow> None)
      else if c = SET_BITS_LOW K then
        (case rest of
           v # d # r \<Rightarrow> map_option ((#) (SetBitsLow v d)) (decode_mpsse K r)
         | _ \<Rightarrow> None)
      else if c = WRITE_BITS_PVE_LSB K then
        (case rest of
           n # b # r \<Rightarrow> map_option ((#) (WriteBitsLSB n b)) (decode_mpsse K r)
         | _ \<Rightarrow> None)
      else if c = WRITE_BYTES_PVE_LSB K then
        (case rest of
           lo # hi # r \<Rightarrow>
             (if length r < nat (lo + 256 * hi) + 1 then None
              else map_option ((#) (WriteBytesLSB (take (nat (lo + 256 * hi) + 1) r)))
                     (decode_mpsse K (drop (nat (lo + 256 * hi) + 1) r)))
         | _ \<Rightarrow> None)
      else if c = READ_BYTES_PVE_LSB K then
        (case rest of
           lo # hi # r \<Rightarrow>
             map_option ((#) (ReadBytesLSB (lo + 256 * hi + 1))) (decode_mpsse K r)
         | _ \<Rightarrow> None)
      else if c = CLK_WAIT_ON_HIGH K then
        map_option ((#) ClkWaitOnHigh) (decode_mpsse K rest)
      else None)"

text \<open>The number of WAIT commands of a frame, when the frame decodes.\<close>

definition wait_count :: "Ftdi_consts \<Rightarrow> bytes \<Rightarrow> nat option" where
  "wait_count K frame =
     map_option (\<lambda>cs. length (filter (\<lambda>c. c = ClkWaitOnHigh) cs)) (decode_mpsse K frame)"

text \<open>
  One C2 transaction, read back from its frame (spec section 4.1): START, drive, the
  instruction bits, the payload written or read, release, WAIT for the data operations, STOP.
  The opcode is the low two bits of the instruction byte.
\<close>

record c2_frame =
  opcode :: int
  bit_count :: int
  payload :: "int option"
  wait :: bool

fun c2_write_end :: "mpsse_cmd list \<Rightarrow> bool option" where
  "c2_write_end [ClkBitsNoData b] = Some False"
| "c2_write_end [ClkWaitOnHigh, ClkBitsNoData b] = Some True"
| "c2_write_end _ = None"

fun c2_read_end :: "mpsse_cmd list \<Rightarrow> bool option" where
  "c2_read_end [ReadBytesLSB k, ClkBitsNoData b] = Some False"
| "c2_read_end [ClkWaitOnHigh, ReadBytesLSB k, ClkBitsNoData b] = Some True"
| "c2_read_end _ = None"

definition decode_c2_cmds :: "mpsse_cmd list \<Rightarrow> c2_frame option" where
  "decode_c2_cmds cmds =
     (case cmds of
        ClkBitsNoData a # SetBitsLow v d # WriteBitsLSB n ins # rest \<Rightarrow>
          (case rest of
             WriteBytesLSB [p] # SetBitsLow v' d' # tail \<Rightarrow>
               map_option
                 (\<lambda>w. \<lparr>opcode = ins AND 3, bit_count = n, payload = Some p, wait = w\<rparr>)
                 (c2_write_end tail)
           | SetBitsLow v' d' # tail \<Rightarrow>
               map_option
                 (\<lambda>w. \<lparr>opcode = ins AND 3, bit_count = n, payload = None, wait = w\<rparr>)
                 (c2_read_end tail)
           | _ \<Rightarrow> None)
      | _ \<Rightarrow> None)"

definition decode_c2 :: "Ftdi_consts \<Rightarrow> bytes \<Rightarrow> c2_frame option" where
  "decode_c2 K frame = Option.bind (decode_mpsse K frame) decode_c2_cmds"

subsection \<open>Concrete controllers\<close>

text \<open>
  States on which the model is run below: a controller configured at the default frequency,
  the frame of \<^verbatim>\<open>write_addr(0xA5)\<close> under \<open>mpsse_codes\<close>, and the configured controller
  after thirty such calls, whose 510 pending bytes leave no room for another frame.
\<close>

definition session :: C2Controller where
  "session = snd (configure mpsse_codes (init 20000000) ''ftdi://ftdi:232h/1'')"

definition frame_a5 :: bytes where
  "frame_a5 = [0x8E, 0, 0x80, 3, 3, 0x1A, 1, 3, 0x18, 0, 0, 0xA5, 0x80, 3, 1, 0x8E, 0]"

definition session_full :: C2Controller where
  "session_full = snd (stack_cmds session (replicate 30 frame_a5))"

section \<open>Properties\<close>

subsection \<open>The command codes and the four frames\<close>

lemma consts_bytes:
  assumes "Ftdi_consts_bytes K"
  shows "0 \<le> SET_BITS_LOW K" "SET_BITS_LOW K < 256"
    "0 \<le> CLK_BITS_NO_DATA K" "CLK_BITS_NO_DATA K < 256"
    "0 \<le> WRITE_BITS_PVE_LSB K" "WRITE_BITS_PVE_LSB K < 256"
    "0 \<le> WRITE_BYTES_PVE_LSB K" "WRITE_BYTES_PVE_LSB K < 256"
    "0 \<le> READ_BYTES_PVE_LSB K" "READ_BYTES_PVE_LSB K < 256"
    "0 \<le> CLK_WAIT_ON_HIGH K" "CLK_WAIT_ON_HIGH K < 256"
  using assms by (simp_all add: Ftdi_consts_bytes_def)

lemma consts_ok_distinct:
  assumes "Ftdi_consts_ok K"
  shows "SET_BITS_LOW K \<noteq> CLK_BITS_NO_DATA K" "CLK_BITS_NO_DATA K \<noteq> SET_BITS_LOW K"
    "WRITE_BITS_PVE_LSB K \<noteq> CLK_BITS_NO_DATA K" "WRITE_BITS_PVE_LSB K \<noteq> SET_BITS_LOW K"
    "WRITE_BYTES_PVE_LSB K \<noteq> CLK_BITS_NO_DATA K" "WRITE_BYTES_PVE_LSB K \<noteq> SET_BITS_LOW K"
    "WRITE_BYTES_PVE_LSB K \<noteq> WRITE_BITS_PVE_LSB K"
    "READ_BYTES_PVE_LSB K \<noteq> CLK_BITS_NO_DATA K" "READ_BYTES_PVE_LSB K \<noteq> SET_BITS_LOW K"
    "READ_BYTES_PVE_LSB K \<noteq> WRITE_BITS_PVE_LSB K" "READ_BYTES_PVE_LSB K \<noteq> WRITE_BYTES_PVE_LSB K"
    "CLK_WAIT_ON_HIGH K \<noteq> CLK_BITS_NO_DATA K" "CLK_WAIT_ON_HIGH K \<noteq> SET_BITS_LOW K"
    "CLK_WAIT_ON_HIGH K \<noteq> WRITE_BITS_PVE_LSB K" "CLK_WAIT_ON_HIGH K \<noteq> WRITE_BYTES_PVE_LSB K"
    "CLK_WAIT_ON_HIGH K \<noteq> READ_BYTES_PVE_LSB K"
  using assms by (auto simp: Ftdi_consts_ok_def)

lemma mpsse_codes_bytes: "Ftdi_consts_bytes mpsse_codes"
  by (simp add: Ftdi_consts_bytes_def mpsse_codes_def)

lemma mpsse_codes_ok: "Ftdi_consts_ok mpsse_codes"
  by (simp add: Ftdi_consts_ok_def Ftdi_consts_bytes_def mpsse_codes_def)

lemma consts_ok_bytes: "Ftdi_consts_ok K \<Longrightarrow> Ftdi_consts_bytes K"
  by (simp add: Ftdi_consts_ok_def)

lemma write_addr_cmd_bytes:
  assumes "Ftdi_consts_bytes K" "0 \<le> addr" "addr < 256"
  shows "write_addr_cmd K addr =
    Inr [CLK_BITS_NO_DATA K, 0, SET_BITS_LOW K, 3, 3, WRITE_BITS_PVE_LSB K, 1, 3,
         WRITE_BYTES_PVE_LSB K, 0, 0, addr, SET_BITS_LOW K, 3, 1, CLK_BITS_NO_DATA K, 0]"
  using assms consts_bytes [OF assms(1)]
  by (simp add: write_addr_cmd_def bytearray_def CK_BIT_def D_O_BIT_def INS_WRITE_ADDR_def)

lemma write_data_byte_cmd_bytes:
  assumes "Ftdi_consts_bytes K" "0 \<le> val" "val < 256"
  shows "write_data_byte_cmd K val =
    Inr [CLK_BITS_NO_DATA K, 0, SET_BITS_LOW K, 3, 3, WRITE_BITS_PVE_LSB K, 3, 1,
         WRITE_BYTES_PVE_LSB K, 0, 0, val, SET_BITS_LOW K, 3, 1, CLK_WAIT_ON_HIGH K,
         CLK_BITS_NO_DATA K, 0]"
  using assms consts_bytes [OF assms(1)]
  by (simp add: write_data_byte_cmd_def bytearray_def CK_BIT_def D_O_BIT_def INS_WRITE_DATA_def)

lemma read_addr_cmd_bytes:
  assumes "Ftdi_consts_bytes K"
  shows "read_addr_cmd K =
    Inr [CLK_BITS_NO_DATA K, 0, SET_BITS_LOW K, 3, 3, WRITE_BITS_PVE_LSB K, 1, 2,
         SET_BITS_LOW K, 3, 1, READ_BYTES_PVE_LSB K, 0, 0, CLK_BITS_NO_DATA K, 0]"
  using consts_bytes [OF assms]
  by (simp add: read_addr_cmd_def bytearray_def CK_BIT_def D_O_BIT_def INS_READ_ADDR_def)

lemma read_data_byte_cmd_bytes:
  assumes "Ftdi_consts_bytes K"
  shows "read_data_byte_cmd K =
    Inr [CLK_BITS_NO_DATA K, 0, SET_BITS_LOW K, 3, 3, WRITE_BITS_PVE_LSB K, 3, 0,
         SET_BITS_LOW K, 3, 1, CLK_WAIT_ON_HIGH K, READ_BYTES_PVE_LSB K, 0, 0,
         CLK_BITS_NO_DATA K, 0]"
  using consts_bytes [OF assms]
  by (simp add: read_data_byte_cmd_def bytearray_def CK_BIT_def D_O_BIT_def INS_READ_DATA_def)

lemma decode_write_addr_bytes:
  assumes "Ftdi_consts_ok K"
  shows "decode_mpsse K
      [CLK_BITS_NO_DATA K, 0, SET_BITS_LOW K, 3, 3, WRITE_BITS_PVE_LSB K, 1, 3,
       WRITE_BYTES_PVE_LSB K, 0, 0, addr, SET_BITS_LOW K, 3, 1, CLK_BITS_NO_DATA K, 0] =
    Some [ClkBitsNoData 0, SetBitsLow 3 3, WriteBitsLSB 1 3, WriteBytesLSB [addr],
          SetBitsLow 3 1, ClkBitsNoData 0]"
  using consts_ok_distinct [OF assms] by simp

lemma decode_write_data_byte_bytes:
  assumes "Ftdi_consts_ok K"
  shows "decode_mpsse K
      [CLK_BITS_NO_DATA K, 0, SET_BITS_LOW K, 3, 3, WRITE_BITS_PVE_LSB K, 3, 1,
       WRITE_BYTES_PVE_LSB K, 0, 0, val, SET_BITS_LOW K, 3, 1, CLK_WAIT_ON_HIGH K,
       CLK_BITS_NO_DATA K, 0] =
    Some [ClkBitsNoData 0, SetBitsLow 3 3, WriteBitsLSB 3 1, WriteBytesLSB [val],
          SetBitsLow 3 1, ClkWaitOnHigh, ClkBitsNoData 0]"
  using consts_ok_distinct [OF assms] by simp

lemma decode_read_addr_bytes:
  assumes "Ftdi_consts_ok K"
  shows "decode_mpsse K
      [CLK_BITS_NO_DATA K, 0, SET_BITS_LOW K, 3, 3, WRITE_BITS_PVE_LSB K, 1, 2,
       SET_BITS_LOW K, 3, 1, READ_BYTES_PVE_LSB K, 0, 0, CLK_BITS_NO_DATA K, 0] =
    Some [ClkBitsNoData 0, SetBitsLow 3 3, WriteBitsLSB 1 2, SetBitsLow 3 1,
          ReadBytesLSB 1, ClkBitsNoData 0]"
  using consts_ok_distinct [OF assms] by simp

subsection \<open>Flushing and enqueueing\<close>

lemma sync_not_connected:
  "\<not> is_connected (ftdi s) \<Longrightarrow> sync s = (Inl (C2Error ''FTDI controller terminated''), s)"
  by (simp add: sync_def)

lemma sync_empty:
  "is_connected (ftdi s) \<Longrightarrow> write_buff s = [] \<Longrightarrow> sync s = (Inr (), s)"
  by (simp add: sync_def)

lemma sync_flush:
  "usable (ftdi s) \<Longrightarrow> write_buff s \<noteq> [] \<Longrightarrow>
   sync s = (Inr (), s\<lparr>ftdi := (ftdi s)\<lparr>calls := calls (ftdi s) @ [WriteData (write_buff s)]\<rparr>,
                        write_buff := []\<rparr>)"
  by (simp add: sync_def usable_def Ftdi_write_data_def)

lemma sync_fail_unchanged: "sync s = (Inl e, s') \<Longrightarrow> s' = s"
  by (auto simp: sync_def Ftdi_write_data_def split: if_splits)

lemma stack_cmd_below:
  "length (write_buff s) + length cmd + 1 < FTDI_PIPE_LEN \<Longrightarrow>
   stack_cmd s cmd = (Inr (), s\<lparr>write_buff := write_buff s @ cmd\<rparr>)"
  by (simp add: stack_cmd_def Ftdi_bool_def)

lemma stack_cmd_flush:
  "usable (ftdi s) \<Longrightarrow> write_buff s \<noteq> [] \<Longrightarrow>
   FTDI_PIPE_LEN \<le> length (write_buff s) + length cmd + 1 \<Longrightarrow>
   stack_cmd s cmd =
     (Inr (), s\<lparr>ftdi := (ftdi s)\<lparr>calls := calls (ftdi s) @ [WriteData (write_buff s)]\<rparr>,
                 write_buff := cmd\<rparr>)"
  by (simp add: stack_cmd_def Ftdi_bool_def sync_flush)

lemma stack_cmd_fail_unchanged: "stack_cmd s cmd = (Inl e, s') \<Longrightarrow> s' = s"
  by (auto simp: stack_cmd_def Ftdi_bool_def split: if_splits prod.splits sum.splits
           dest: sync_fail_unchanged)

lemma stack_sync_read_usable:
  assumes u: "usable (ftdi s)" and ne: "cmd \<noteq> []" and fits: "length cmd + 1 < FTDI_PIPE_LEN"
    and reply: "next_reply (ftdi s) = b # bs"
  shows "stack_sync_read s cmd =
     (Inr b,
      s\<lparr>ftdi := (ftdi s)
           \<lparr>calls := calls (ftdi s) @
              (if FTDI_PIPE_LEN \<le> length (write_buff s) + length cmd + 1
               then [WriteData (write_buff s), WriteData cmd]
               else [WriteData (write_buff s @ cmd)]) @
              [ReadDataBytes 1 4],
            replies := drop 1 (replies (ftdi s))\<rparr>,
        write_buff := []\<rparr>)"
proof (cases "FTDI_PIPE_LEN \<le> length (write_buff s) + length cmd + 1")
  case True
  with fits have "write_buff s \<noteq> []" by auto
  from stack_cmd_flush [OF u this True] u ne reply True show ?thesis
    by (simp add: stack_sync_read_def sync_flush usable_def Ftdi_read_data_bytes_def next_reply_def)
next
  case False
  then have "length (write_buff s) + length cmd + 1 < FTDI_PIPE_LEN" by simp
  from stack_cmd_below [OF this] u ne reply False show ?thesis
    by (simp add: stack_sync_read_def sync_flush usable_def Ftdi_read_data_bytes_def next_reply_def)
qed

lemma stack_sync_read_empty_reply:
  assumes u: "usable (ftdi s)" and ne: "cmd \<noteq> []" and fits: "length cmd + 1 < FTDI_PIPE_LEN"
    and reply: "next_reply (ftdi s) = []"
  shows "fst (stack_sync_read s cmd) = Inl IndexError"
proof (cases "FTDI_PIPE_LEN \<le> length (write_buff s) + length cmd + 1")
  case True
  with fits have "write_buff s \<noteq> []" by auto
  from stack_cmd_flush [OF u this True] u ne reply True show ?thesis
    by (simp add: stack_sync_read_def sync_flush usable_def Ftdi_read_data_bytes_def next_reply_def)
next
  case False
  then have "length (write_buff s) + length cmd + 1 < FTDI_PIPE_LEN" by simp
  from stack_cmd_below [OF this] u ne reply False show ?thesis
    by (simp add: stack_sync_read_def sync_flush usable_def Ftdi_read_data_bytes_def next_reply_def)
qed

subsection \<open>Sequences of frames\<close>

lemma written_append: "written (xs @ ys) = written xs @ written ys"
  by (induction xs rule: written.induct) simp_all

lemma stack_cmds_below:
  "length (write_buff s) + length (concat cmds) + 1 < FTDI_PIPE_LEN \<Longrightarrow>
   stack_cmds s cmds = (Inr (), s\<lparr>write_buff := write_buff s @ concat cmds\<rparr>)"
proof (induction cmds arbitrary: s)
  case Nil
  show ?case by simp
next
  case (Cons c cs)
  then have below: "length (write_buff s) + length c + 1 < FTDI_PIPE_LEN" by simp
  let ?s1 = "s\<lparr>write_buff := write_buff s @ c\<rparr>"
  from Cons.prems have "length (write_buff ?s1) + length (concat cs) + 1 < FTDI_PIPE_LEN"
    by simp
  from Cons.IH [OF this] stack_cmd_below [OF below] show ?case by simp
qed

lemma stack_cmds_refines_spec:
  "usable (ftdi s) \<Longrightarrow> list_all (\<lambda>c. length c + 1 < FTDI_PIPE_LEN) cmds \<Longrightarrow>
   stack_cmds s cmds =
     (Inr (), s\<lparr>ftdi := (ftdi s)\<lparr>calls := calls (ftdi s) @
                                     map WriteData (fst (batcher_spec (write_buff s) cmds))\<rparr>,
                 write_buff := snd (batcher_spec (write_buff s) cmds)\<rparr>)"
proof (induction cmds arbitrary: s)
  case Nil
  show ?case by simp
next
  case (Cons c cs)
  from Cons.prems have fits: "length c + 1 < FTDI_PIPE_LEN"
    and rest: "list_all (\<lambda>c. length c + 1 < FTDI_PIPE_LEN) cs" by simp_all
  show ?case
  proof (cases "FTDI_PIPE_LEN \<le> length (write_buff s) + length c + 1")
    case True
    with fits have ne: "write_buff s \<noteq> []" by auto
    let ?s1 = "s\<lparr>ftdi := (ftdi s)\<lparr>calls := calls (ftdi s) @ [WriteData (write_buff s)]\<rparr>,
                  write_buff := c\<rparr>"
    have u1: "usable (ftdi ?s1)" using Cons.prems(1) by (simp add: usable_def)
    from Cons.IH [OF u1 rest] stack_cmd_flush [OF Cons.prems(1) ne True] True
    show ?thesis by (simp add: FTDI_PIPE_LEN_def)
  next
    case False
    then have below: "length (write_buff s) + length c + 1 < FTDI_PIPE_LEN" by simp
    let ?s1 = "s\<lparr>write_buff := write_buff s @ c\<rparr>"
    have u1: "usable (ftdi ?s1)" using Cons.prems(1) by simp
    from Cons.IH [OF u1 rest] stack_cmd_below [OF below] False
    show ?thesis by (simp add: FTDI_PIPE_LEN_def)
  qed
qed

lemma stack_cmd_usable_written:
  assumes u: "usable (ftdi s)"
  shows "\<exists>s'. stack_cmd s cmd = (Inr (), s') \<and> usable (ftdi s') \<and>
           written (calls (ftdi s')) @ write_buff s' =
             written (calls (ftdi s)) @ write_buff s @ cmd"
proof (cases "FTDI_PIPE_LEN \<le> length (write_buff s) + length cmd + 1")
  case True
  show ?thesis
  proof (cases "write_buff s = []")
    case True
    with u \<open>FTDI_PIPE_LEN \<le> _\<close> show ?thesis
      by (simp add: stack_cmd_def Ftdi_bool_def sync_empty usable_def)
  next
    case False
    from stack_cmd_flush [OF u False True] u show ?thesis
      by (simp add: usable_def written_append)
  qed
next
  case False
  then have "length (write_buff s) + length cmd + 1 < FTDI_PIPE_LEN" by simp
  from stack_cmd_below [OF this] u show ?thesis by simp
qed

lemma stack_cmds_usable_written:
  "usable (ftdi s) \<Longrightarrow>
   \<exists>s'. stack_cmds s cmds = (Inr (), s') \<and> usable (ftdi s') \<and>
        written (calls (ftdi s')) @ write_buff s' =
          written (calls (ftdi s)) @ write_buff s @ concat cmds"
proof (induction cmds arbitrary: s)
  case Nil
  then show ?case by simp
next
  case (Cons c cs)
  from stack_cmd_usable_written [OF Cons.prems, of c] obtain s1 where
    s1: "stack_cmd s c = (Inr (), s1)" "usable (ftdi s1)"
      "written (calls (ftdi s1)) @ write_buff s1 = written (calls (ftdi s)) @ write_buff s @ c"
    by blast
  from Cons.IH [OF s1(2)] obtain s' where
    s': "stack_cmds s1 cs = (Inr (), s')" "usable (ftdi s')"
      "written (calls (ftdi s')) @ write_buff s' =
         written (calls (ftdi s1)) @ write_buff s1 @ concat cs"
    by blast
  from s1 s' show ?case by (simp flip: append_assoc)
qed

lemma sync_usable_written:
  assumes u: "usable (ftdi s)"
  shows "\<exists>s'. sync s = (Inr (), s') \<and> write_buff s' = [] \<and>
           written (calls (ftdi s')) = written (calls (ftdi s)) @ write_buff s"
proof (cases "write_buff s = []")
  case True
  with u show ?thesis by (simp add: sync_empty usable_def)
next
  case False
  from sync_flush [OF u False] show ?thesis by (simp add: written_append)
qed

text \<open>
  From here on the decoder is applied through the lemmas above: unfolding it on a frame whose
  command codes are not yet known to differ splits on every comparison.
\<close>

declare decode_mpsse.simps [simp del]

section \<open>The claims\<close>

subsection \<open>The command encoder\<close>

text \<open>
  Claim C2. For every \<open>addr\<close> in \<open>[0, 255]\<close>, \<^verbatim>\<open>write_addr(addr)\<close> builds and enqueues a frame
  of the fixed length 17. Read as a command stream, the frame is START, drive, a bit write
  with bit-count field 1 carrying the WriteAddress opcode 3, immediately followed by a byte
  write whose payload is the byte \<open>addr\<close>, then release and STOP.
\<close>

theorem write_addr_frame:
  assumes "Ftdi_consts_ok K" and "0 \<le> addr" and "addr < 256"
  shows "\<exists>frame. write_addr_cmd K addr = Inr frame \<and> length frame = 17 \<and>
           decode_mpsse K frame =
             Some [ClkBitsNoData 0, SetBitsLow 3 3, WriteBitsLSB 1 INS_WRITE_ADDR,
                   WriteBytesLSB [addr], SetBitsLow 3 1, ClkBitsNoData 0] \<and>
           INS_WRITE_ADDR = 3 \<and>
           write_addr K s addr = stack_cmd s frame"
  using write_addr_cmd_bytes [OF consts_ok_bytes [OF assms(1)] assms(2,3)]
    decode_write_addr_bytes [OF assms(1), of addr]
  by (simp add: write_addr_def INS_WRITE_ADDR_def del: decode_mpsse.simps)

theorem write_addr_frame_witness:
  "Ftdi_consts_ok mpsse_codes \<and> (0::int) \<le> 0xA5 \<and> (0xA5::int) < 256 \<and>
   write_addr_cmd mpsse_codes 0xA5 =
     Inr [0x8E, 0, 0x80, 3, 3, 0x1A, 1, 3, 0x18, 0, 0, 0xA5, 0x80, 3, 1, 0x8E, 0] \<and>
   decode_mpsse mpsse_codes
       [0x8E, 0, 0x80, 3, 3, 0x1A, 1, 3, 0x18, 0, 0, 0xA5, 0x80, 3, 1, 0x8E, 0] =
     Some [ClkBitsNoData 0, SetBitsLow 3 3, WriteBitsLSB 1 3, WriteBytesLSB [0xA5],
           SetBitsLow 3 1, ClkBitsNoData 0] \<and>
   write_addr mpsse_codes (init 20000000) 0xA5 =
     stack_cmd (init 20000000)
       [0x8E, 0, 0x80, 3, 3, 0x1A, 1, 3, 0x18, 0, 0, 0xA5, 0x80, 3, 1, 0x8E, 0]"
proof -
  have bytes: "write_addr_cmd mpsse_codes 0xA5 =
      Inr [0x8E, 0, 0x80, 3, 3, 0x1A, 1, 3, 0x18, 0, 0, 0xA5, 0x80, 3, 1, 0x8E, 0]"
    by (simp add: write_addr_cmd_def bytearray_def mpsse_codes_def CK_BIT_def D_O_BIT_def
        INS_WRITE_ADDR_def)
  from write_addr_frame [OF mpsse_codes_ok, of "0xA5" "init 20000000"] bytes mpsse_codes_ok
  show ?thesis by (simp add: INS_WRITE_ADDR_def)
qed

text \<open>
  Claim C3. For every \<open>val\<close> in \<open>[0, 255]\<close>, \<^verbatim>\<open>write_data_byte(val)\<close> builds and enqueues a
  frame of the fixed length 18, longer than every \<^verbatim>\<open>write_addr\<close> frame; it carries the
  WriteData opcode 1 in a bit write with bit-count field 3 and holds exactly one WAIT
  command, while the frames of \<^verbatim>\<open>write_addr\<close> and \<^verbatim>\<open>read_addr\<close> hold none.
\<close>

theorem write_data_byte_frame:
  assumes "Ftdi_consts_ok K" and "0 \<le> val" and "val < 256"
  shows "\<exists>frame. write_data_byte_cmd K val = Inr frame \<and> length frame = 18 \<and>
           (\<forall>addr a_frame. write_addr_cmd K addr = Inr a_frame \<longrightarrow>
              length a_frame < length frame \<and> wait_count K a_frame = Some 0) \<and>
           (\<exists>r_frame. read_addr_cmd K = Inr r_frame \<and> wait_count K r_frame = Some 0) \<and>
           decode_mpsse K frame =
             Some [ClkBitsNoData 0, SetBitsLow 3 3, WriteBitsLSB 3 INS_WRITE_DATA,
                   WriteBytesLSB [val], SetBitsLow 3 1, ClkWaitOnHigh, ClkBitsNoData 0] \<and>
           INS_WRITE_DATA = 1 \<and>
           wait_count K frame = Some 1 \<and>
           write_data_byte K s val = stack_cmd s frame"
proof -
  note kb = consts_ok_bytes [OF assms(1)]
  let ?frame = "[CLK_BITS_NO_DATA K, 0, SET_BITS_LOW K, 3, 3, WRITE_BITS_PVE_LSB K, 3, 1,
         WRITE_BYTES_PVE_LSB K, 0, 0, val, SET_BITS_LOW K, 3, 1, CLK_WAIT_ON_HIGH K,
         CLK_BITS_NO_DATA K, 0]"
  have enc: "write_data_byte_cmd K val = Inr ?frame"
    by (rule write_data_byte_cmd_bytes [OF kb assms(2,3)])
  have len: "length ?frame = 18" by simp
  have dec: "decode_mpsse K ?frame =
      Some [ClkBitsNoData 0, SetBitsLow 3 3, WriteBitsLSB 3 INS_WRITE_DATA,
            WriteBytesLSB [val], SetBitsLow 3 1, ClkWaitOnHigh, ClkBitsNoData 0]"
    unfolding INS_WRITE_DATA_def by (rule decode_write_data_byte_bytes [OF assms(1)])
  have ins: "INS_WRITE_DATA = 1" by (simp add: INS_WRITE_DATA_def)
  have wc: "wait_count K ?frame = Some 1"
    unfolding wait_count_def dec by simp
  have op: "write_data_byte K s val = stack_cmd s ?frame"
    by (simp add: write_data_byte_def enc)
  have addr: "\<forall>addr a_frame. write_addr_cmd K addr = Inr a_frame \<longrightarrow>
      length a_frame < length ?frame \<and> wait_count K a_frame = Some 0"
  proof (intro allI impI)
    fix addr a_frame
    assume a: "write_addr_cmd K addr = Inr a_frame"
    then have "0 \<le> addr \<and> addr < 256"
      by (auto simp: write_addr_cmd_def bytearray_def split: if_splits)
    then have "a_frame =
        [CLK_BITS_NO_DATA K, 0, SET_BITS_LOW K, 3, 3, WRITE_BITS_PVE_LSB K, 1, 3,
         WRITE_BYTES_PVE_LSB K, 0, 0, addr, SET_BITS_LOW K, 3, 1, CLK_BITS_NO_DATA K, 0]"
      using write_addr_cmd_bytes [OF kb, of addr] a by simp
    then show "length a_frame < length ?frame \<and> wait_count K a_frame = Some 0"
      by (simp add: wait_count_def decode_write_addr_bytes [OF assms(1)]
          del: decode_mpsse.simps)
  qed
  have rd: "\<exists>r_frame. read_addr_cmd K = Inr r_frame \<and> wait_count K r_frame = Some 0"
    by (simp add: read_addr_cmd_bytes [OF kb] wait_count_def
        decode_read_addr_bytes [OF assms(1)] del: decode_mpsse.simps)
  show ?thesis
    by (rule exI [of _ ?frame]) (intro conjI enc len addr rd dec ins wc op)
qed

theorem write_data_byte_frame_witness:
  "Ftdi_consts_ok mpsse_codes \<and> (0::int) \<le> 0x42 \<and> (0x42::int) < 256 \<and>
   write_data_byte_cmd mpsse_codes 0x42 =
     Inr [0x8E, 0, 0x80, 3, 3, 0x1A, 3, 1, 0x18, 0, 0, 0x42, 0x80, 3, 1, 0x94, 0x8E, 0] \<and>
   write_addr_cmd mpsse_codes 0xA5 =
     Inr [0x8E, 0, 0x80, 3, 3, 0x1A, 1, 3, 0x18, 0, 0, 0xA5, 0x80, 3, 1, 0x8E, 0] \<and>
   wait_count mpsse_codes
     [0x8E, 0, 0x80, 3, 3, 0x1A, 3, 1, 0x18, 0, 0, 0x42, 0x80, 3, 1, 0x94, 0x8E, 0] = Some 1 \<and>
   wait_count mpsse_codes
     [0x8E, 0, 0x80, 3, 3, 0x1A, 1, 3, 0x18, 0, 0, 0xA5, 0x80, 3, 1, 0x8E, 0] = Some 0 \<and>
   write_data_byte mpsse_codes (init 20000000) 0x42 =
     stack_cmd (init 20000000)
       [0x8E, 0, 0x80, 3, 3, 0x1A, 3, 1, 0x18, 0, 0, 0x42, 0x80, 3, 1, 0x94, 0x8E, 0]"
proof -
  have d: "write_data_byte_cmd mpsse_codes 0x42 =
      Inr [0x8E, 0, 0x80, 3, 3, 0x1A, 3, 1, 0x18, 0, 0, 0x42, 0x80, 3, 1, 0x94, 0x8E, 0]"
    by (simp add: write_data_byte_cmd_def bytearray_def mpsse_codes_def CK_BIT_def D_O_BIT_def
        INS_WRITE_DATA_def)
  have a: "write_addr_cmd mpsse_codes 0xA5 =
      Inr [0x8E, 0, 0x80, 3, 3, 0x1A, 1, 3, 0x18, 0, 0, 0xA5, 0x80, 3, 1, 0x8E, 0]"
    by (simp add: write_addr_cmd_def bytearray_def mpsse_codes_def CK_BIT_def D_O_BIT_def
        INS_WRITE_ADDR_def)
  from write_data_byte_frame [OF mpsse_codes_ok, of "0x42" "init 20000000"] d a mpsse_codes_ok
  show ?thesis by (auto simp del: decode_mpsse.simps)
qed

text \<open>
  Claim C9. Round trip: the frame that \<^verbatim>\<open>write_data_byte(0x42)\<close> encodes decodes, by its
  structure, to the opcode WriteData (1) and the payload byte 0x42.
\<close>

theorem write_data_byte_roundtrip:
  assumes "Ftdi_consts_ok K"
  shows "\<exists>frame. write_data_byte_cmd K 0x42 = Inr frame \<and>
           decode_c2 K frame =
             Some \<lparr>opcode = INS_WRITE_DATA, bit_count = 3, payload = Some 0x42, wait = True\<rparr> \<and>
           INS_WRITE_DATA = 1"
  using write_data_byte_cmd_bytes [OF consts_ok_bytes [OF assms], of "0x42"]
    decode_write_data_byte_bytes [OF assms, of "0x42"]
  by (simp add: decode_c2_def decode_c2_cmds_def INS_WRITE_DATA_def del: decode_mpsse.simps)

theorem write_data_byte_roundtrip_witness:
  "Ftdi_consts_ok mpsse_codes \<and>
   write_data_byte_cmd mpsse_codes 0x42 =
     Inr [0x8E, 0, 0x80, 3, 3, 0x1A, 3, 1, 0x18, 0, 0, 0x42, 0x80, 3, 1, 0x94, 0x8E, 0] \<and>
   decode_c2 mpsse_codes
       [0x8E, 0, 0x80, 3, 3, 0x1A, 3, 1, 0x18, 0, 0, 0x42, 0x80, 3, 1, 0x94, 0x8E, 0] =
     Some \<lparr>opcode = 1, bit_count = 3, payload = Some 0x42, wait = True\<rparr>"
proof -
  have bytes: "write_data_byte_cmd mpsse_codes 0x42 =
      Inr [0x8E, 0, 0x80, 3, 3, 0x1A, 3, 1, 0x18, 0, 0, 0x42, 0x80, 3, 1, 0x94, 0x8E, 0]"
    by (simp add: write_data_byte_cmd_def bytearray_def mpsse_codes_def CK_BIT_def D_O_BIT_def
        INS_WRITE_DATA_def)
  from write_data_byte_roundtrip [OF mpsse_codes_ok] bytes mpsse_codes_ok
  show ?thesis by (simp add: INS_WRITE_DATA_def)
qed

end
